theory Spec2Isabelle
  imports Complex_Main "HOL-Library.Word"
begin

unbundle bit_operations_syntax

section \<open>Values of the JavaScript platform\<close>

text \<open>
  Exceptions of the platform that the modelled code can raise: \<open>new Int16Array(buffer)\<close> on
  a buffer whose byte length is not a multiple of 2 (RangeError), \<open>createBuffer\<close> with zero
  frames (NotSupportedError), a property read on \<open>undefined\<close> or a call of a value that
  is not a function (TypeError), and \<open>atob\<close> on a string that is not base64
  (InvalidCharacterError).
\<close>

datatype js_error = RangeError | NotSupportedError | TypeError | InvalidCharacterError

type_synonym int16 = "16 word"
type_synonym uint8 = "8 word"

section \<open>PCM codec (src/index.tsx)\<close>

text \<open>
  Float32 samples are modelled as reals. For a Float32 sample both products below are exact
  in double precision (a 24-bit significand times a 15- or 16-bit integer), and so is the
  quotient of a 16-bit integer by 32768, so the reals compute what the code computes
  (NaN apart, which is outside [-1,1]).

  Storing a number into an \<open>Int16Array\<close> applies ToInt16: truncate towards zero, then wrap
  modulo \<open>2 ^ 16\<close>.
\<close>

definition js_trunc :: "real \<Rightarrow> int" where
  "js_trunc x = (if x < 0 then \<lceil>x\<rceil> else \<lfloor>x\<rfloor>)"

definition to_int16 :: "real \<Rightarrow> int16" where
  "to_int16 x = word_of_int (js_trunc x)"

text \<open>
  The body of the encode loop of \<open>processor.onaudioprocess\<close>:
  \<^verbatim>\<open>let s = Math.max(-1, Math.min(1, inputData[i]));
  pcm16[i] = s < 0 ? s * 0x8000 : s * 0x7FFF;\<close>
\<close>

definition pcm16_sample :: "real \<Rightarrow> int16" where
  "pcm16_sample x =
     (let s = max (- 1) (min 1 x)
      in to_int16 (if s < 0 then s * 32768 else s * 32767))"

definition pcm16 :: "real list \<Rightarrow> int16 list" where
  "pcm16 inputData = map pcm16_sample inputData"

text \<open>\<open>pcm16.buffer\<close>: the bytes of the array, little-endian.\<close>

definition int16_bytes :: "int16 \<Rightarrow> uint8 list" where
  "int16_bytes w = [ucast w, ucast (drop_bit 8 w)]"

definition buffer_of :: "int16 list \<Rightarrow> uint8 list" where
  "buffer_of ws = concat (map int16_bytes ws)"

text \<open>
  \<open>new Int16Array(data.buffer)\<close> on a buffer of even length: each pair of bytes read as one
  little-endian 16-bit integer.
\<close>

fun int16_view :: "uint8 list \<Rightarrow> int16 list" where
  "int16_view (lo # hi # bs) = (ucast lo OR push_bit 8 (ucast hi)) # int16_view bs"
| "int16_view _ = []"

record audio_buffer =
  sampleRate :: nat
  channelData :: "real list"

definition duration :: "audio_buffer \<Rightarrow> real" where
  "duration b = real (length (channelData b)) / real (sampleRate b)"

text \<open>
  \<open>decodeAudioData(data, ctx)\<close> as its only call site uses it, with the defaults
  \<open>sampleRate = 24000\<close> and \<open>numChannels = 1\<close>. The constructor \<open>new Int16Array(data.buffer)\<close>
  raises RangeError when the byte length is odd, and \<open>ctx.createBuffer\<close> raises
  NotSupportedError when asked for zero frames.
\<close>

definition decodeAudioData :: "uint8 list \<Rightarrow> js_error + audio_buffer" where
  "decodeAudioData d =
     (if odd (length d) then Inl RangeError
      else
        let dataInt16 = int16_view d;
            frameCount = length dataInt16
        in if frameCount = 0 then Inl NotSupportedError
           else Inr \<lparr>sampleRate = 24000,
                     channelData = map (\<lambda>w. real_of_int (sint w) / 32768) dataInt16\<rparr>)"

section \<open>Base64 transport (src/index.tsx)\<close>

text \<open>
  \<open>base64ToUint8Array(base64String)\<close> is \<open>atob\<close> followed by a copy of the character
  codes into a \<open>Uint8Array\<close>. \<open>atob\<close> is the platform's forgiving base64 decoding: ASCII
  whitespace is removed; when the length is then a multiple of 4, one or two trailing
  \<open>=\<close> are removed; a length that leaves remainder 1 modulo 4, or a character outside
  the base64 alphabet, raises InvalidCharacterError; each character gives six bits, 24
  bits give three bytes, and of 12 or 18 bits left at the end the last four or two are
  dropped.
\<close>

definition ascii_whitespace :: "char \<Rightarrow> bool" where
  "ascii_whitespace c \<longleftrightarrow>
     c = CHR 0x09 \<or> c = CHR 0x0A \<or> c = CHR 0x0C \<or> c = CHR 0x0D \<or> c = CHR 0x20"

definition base64_alphabet :: string where
  "base64_alphabet = ''ABCDEFGHIJKLMNOPQRSTUVWXYZabcdefghijklmnopqrstuvwxyz0123456789+/''"

fun index_of :: "char \<Rightarrow> string \<Rightarrow> nat option" where
  "index_of c [] = None"
| "index_of c (x # xs) = (if c = x then Some 0 else map_option Suc (index_of c xs))"

fun base64_values :: "string \<Rightarrow> nat list option" where
  "base64_values [] = Some []"
| "base64_values (c # cs) =
     (case index_of c base64_alphabet of
        None \<Rightarrow> None
      | Some v \<Rightarrow> map_option (\<lambda>vs. v # vs) (base64_values cs))"

fun bytes_of_sextets :: "nat list \<Rightarrow> uint8 list" where
  "bytes_of_sextets (a # b # c # d # rest) =
     (let n = ((a * 64 + b) * 64 + c) * 64 + d
      in of_nat (n div 65536) # of_nat (n div 256 mod 256) # of_nat (n mod 256)
           # bytes_of_sextets rest)"
| "bytes_of_sextets [a, b, c] =
     (let n = ((a * 64 + b) * 64 + c) div 4 in [of_nat (n div 256), of_nat (n mod 256)])"
| "bytes_of_sextets [a, b] = [of_nat ((a * 64 + b) div 16)]"
| "bytes_of_sextets _ = []"

definition strip_padding :: "string \<Rightarrow> string" where
  "strip_padding d =
     (if length d mod 4 = 0 then
        (case rev d of
           x # y # r \<Rightarrow>
             if x = CHR ''='' \<and> y = CHR ''='' then rev r
             else if x = CHR ''='' then rev (y # r)
             else d
         | _ \<Rightarrow> d)
      else d)"

definition base64ToUint8Array :: "string \<Rightarrow> js_error + uint8 list" where
  "base64ToUint8Array base64String =
     (let d = strip_padding (filter (\<lambda>c. \<not> ascii_whitespace c) base64String)
      in if length d mod 4 = 1 then Inl InvalidCharacterError
         else (case base64_values d of
                 None \<Rightarrow> Inl InvalidCharacterError
               | Some vs \<Rightarrow> Inr (bytes_of_sextets vs)))"

section \<open>Streaming session (src/index.tsx, component App)\<close>

text \<open>
  The state of the component that the handlers below read and write: the React state
  (\<open>connected\<close>, \<open>isMicOn\<close>, \<open>volumeLevel\<close>, \<open>errorMsg\<close>), the refs
  (\<open>audioContextRef\<close>, \<open>processorRef\<close>, \<open>sessionRef\<close>, \<open>nextStartTimeRef\<close>), and two logs
  of what the handlers hand to the platform: the \<open>source.start(startTime)\<close> calls with
  their buffers (\<open>started\<close>) and the messages given to the remote session (\<open>sent\<close>).
\<close>

datatype audio_context_state = Running | ContextClosed

record mock_event =
  ev_id :: string
  ev_name :: string
  ev_lat :: real
  ev_lng :: real
  ev_time :: string
  ev_reward :: string

definition MOCK_EVENTS :: "mock_event list" where
  "MOCK_EVENTS =
     [\<lparr>ev_id = ''e1'', ev_name = ''Morning Tai Chi'', ev_lat = 13521 / 10000,
        ev_lng = 1038198 / 10000, ev_time = ''7:00 AM'', ev_reward = ''50 KP''\<rparr>,
      \<lparr>ev_id = ''e2'', ev_name = ''Pasar Malam Cleanup'', ev_lat = 13600 / 10000,
        ev_lng = 1038200 / 10000, ev_time = ''8:00 PM'', ev_reward = ''100 KP''\<rparr>]"

definition MOCK_SCAM_NUMBERS :: "string list" where
  "MOCK_SCAM_NUMBERS = [''99998888'', ''0123456789'', ''99999999'']"

text \<open>
  A function call of the remote service. The code reads \<open>fc.args\<close> untyped
  (\<open>const args: any = fc.args\<close>): \<open>None\<close> is an \<open>args\<close> that is undefined or null, and
  \<open>Some m\<close> an object whose properties are the JSON values of \<open>m\<close>. (An \<open>args\<close> that
  is a number, a string or a boolean has no \<open>phoneNumber\<close> and reads like \<open>Some Map.empty\<close>.)
\<close>

datatype json =
  JNull
  | JBool bool
  | JNumber real
  | JString string
  | JArray "json list"
  | JObject "(string \<times> json) list"

record function_call =
  fc_id :: string
  fc_name :: string
  fc_args :: "(string \<rightharpoonup> json) option"

text \<open>
  The values that the loop assigns to \<open>result\<close>: \<open>{}\<close>, \<open>{ events: MOCK_EVENTS }\<close> and
  \<open>{ isSuspicious, message }\<close>.
\<close>

datatype tool_result =
  EmptyObject
  | Events "mock_event list"
  | ScamCheck bool string

record function_response =
  fr_id :: string
  fr_name :: string
  fr_result :: tool_result

text \<open>
  Messages handed to the remote session: \<open>sendRealtimeInput\<close> with the sample rate of its
  mime type \<open>audio/pcm;rate=N\<close> and the bytes that are base64-encoded, and
  \<open>sendToolResponse\<close>.
\<close>

datatype outbound =
  RealtimeInput nat "uint8 list"
  | ToolResponse function_response

text \<open>
  The callbacks that \<open>startSession\<close> gives to \<open>ai.live.connect\<close> are closures of that
  call of \<open>startSession\<close>: they hold the \<open>isMicOn\<close> of the render in which it was called
  and the \<open>sampleRate\<close> of the audio context it created. \<open>sessionRef\<close> holds the session
  promise with these callbacks, \<open>processorRef\<close> the script processor whose
  \<open>onaudioprocess\<close> handler \<open>onopen\<close> created, with the same variables.
\<close>

record live_closure =
  cl_isMicOn :: bool
  cl_sampleRate :: nat

record session =
  connected :: bool
  isMicOn :: bool
  volumeLevel :: real
  errorMsg :: "string option"
  audioContextRef :: "audio_context_state option"
  processorRef :: "live_closure option"
  sessionRef :: "live_closure option"
  nextStartTimeRef :: real
  started :: "(real \<times> audio_buffer) list"
  sent :: "outbound list"

text \<open>The initial values of \<open>useState\<close> and \<open>useRef\<close>.\<close>

definition init_session :: session where
  "init_session =
     \<lparr>connected = False, isMicOn = True, volumeLevel = 0, errorMsg = None,
      audioContextRef = None, processorRef = None, sessionRef = None,
      nextStartTimeRef = 0, started = [], sent = []\<rparr>"

text \<open>The mute button: \<open>onClick={() => setIsMicOn(!isMicOn)}\<close>.\<close>

definition toggleMic :: "session \<Rightarrow> session" where
  "toggleMic s = s\<lparr>isMicOn := \<not> isMicOn s\<rparr>"

text \<open>
  What \<open>startSession\<close> finds: whether \<open>GEMINI_API_KEY\<close> is set (read by the
  \<open>startSession\<close> of \<open>AppContent\<close> only), whether the browser has an \<open>AudioContext\<close>
  class, the sample rate of the new audio context, and the name of the error of
  \<open>getUserMedia\<close> when it rejects.
\<close>

record session_env =
  apiKey :: bool
  audioContextClass :: bool
  ctxSampleRate :: nat
  micError :: "string option"

text \<open>
  \<open>startSession()\<close> of \<open>App\<close>, up to the call of \<open>ai.live.connect\<close>, which is not
  awaited. The \<open>throw\<close> is caught at the end of the function; a rejected \<open>getUserMedia\<close>
  is replaced by a silent stream and sets \<open>isMicOn\<close> to false. The closure keeps the
  \<open>isMicOn\<close> that the function was called with.
\<close>

definition App_startSession :: "session_env \<Rightarrow> session \<Rightarrow> session" where
  "App_startSession e s =
     (let s0 = s\<lparr>errorMsg := None\<rparr>
      in if \<not> audioContextClass e then
           s0\<lparr>errorMsg := Some ''AudioContext not supported'', connected := False\<rparr>
         else
           let s1 = s0\<lparr>audioContextRef := Some Running\<rparr>;
               s2 = (case micError e of
                       None \<Rightarrow> s1
                     | Some name \<Rightarrow>
                         s1\<lparr>isMicOn := False,
                            errorMsg := Some ''Mic not found - Audio Input Disabled''\<rparr>);
               s3 = s2\<lparr>connected := True\<rparr>
           in s3\<lparr>sessionRef := Some \<lparr>cl_isMicOn = isMicOn s,
                                      cl_sampleRate = ctxSampleRate e\<rparr>\<rparr>)"

text \<open>
  \<open>onopen\<close>, a callback of the session in \<open>sessionRef\<close>, builds the capture graph (media
  stream source, script processor of 4096 frames, destination), keeps the processor in
  \<open>processorRef\<close> and installs the capture callback. \<open>stopSession\<close> closes the audio
  context when there is one, which ends the capture callbacks, and resets \<open>connected\<close>
  and the volume level; its two other effects, closing the remote session and clearing
  the video timer, have no field in this state.
\<close>

definition onopen :: "session \<Rightarrow> session" where
  "onopen s = (case sessionRef s of None \<Rightarrow> s | Some c \<Rightarrow> s\<lparr>processorRef := Some c\<rparr>)"

definition stopSession :: "session \<Rightarrow> session" where
  "stopSession s =
     (let s1 = (case audioContextRef s of
                  None \<Rightarrow> s
                | Some c \<Rightarrow> s\<lparr>audioContextRef := Some ContextClosed\<rparr>)
      in s1\<lparr>connected := False, volumeLevel := 0\<rparr>)"

text \<open>
  The handler \<open>processor.onaudioprocess\<close> with the variables \<open>c\<close> of its closure. The
  first statement is \<open>if (!isMicOn) return;\<close>. The volume is
  \<open>Math.min(Math.sqrt(sum / inputData.length) * 1000, 100)\<close>.
\<close>

definition rms :: "real list \<Rightarrow> real" where
  "rms inputData = sqrt (foldl (\<lambda>sum x. sum + x * x) 0 inputData / real (length inputData))"

definition onaudioprocess :: "live_closure \<Rightarrow> real list \<Rightarrow> session \<Rightarrow> session" where
  "onaudioprocess c inputData s =
     (if \<not> cl_isMicOn c then s
      else
        let s1 = s\<lparr>volumeLevel := min (rms inputData * 1000) 100\<rparr>;
            base64Audio = buffer_of (pcm16 inputData)
        in s1\<lparr>sent := sent s1 @ [RealtimeInput (cl_sampleRate c) base64Audio]\<rparr>)"

text \<open>
  A capture callback of the component: the browser calls the handler of the processor
  that \<open>processorRef\<close> holds, with a frame of samples.
\<close>

definition capture_callback :: "real list \<Rightarrow> session \<Rightarrow> session" where
  "capture_callback inputData s =
     (case processorRef s of
        None \<Rightarrow> s
      | Some c \<Rightarrow> onaudioprocess c inputData s)"

text \<open>
  The audio part of \<open>onmessage\<close>, for the bytes of \<open>inlineData.data\<close>: \<open>now\<close> is
  \<open>ctx.currentTime\<close> and \<open>rnd\<close> the value of \<open>Math.random()\<close>. When \<open>decodeAudioData\<close>
  raises, the handler's promise rejects before anything is written.
\<close>

definition handleAudio :: "real \<Rightarrow> real \<Rightarrow> uint8 list \<Rightarrow> session \<Rightarrow> js_error + session" where
  "handleAudio now rnd audioBytes s =
     (case decodeAudioData audioBytes of
        Inl e \<Rightarrow> Inl e
      | Inr audioBuffer \<Rightarrow>
          let startTime = max now (nextStartTimeRef s)
          in Inr (s\<lparr>volumeLevel := 50 + rnd * 50,
                    started := started s @ [(startTime, audioBuffer)],
                    nextStartTimeRef := startTime + duration audioBuffer\<rparr>))"

text \<open>\<open>num.includes(n)\<close>: \<open>n\<close> occurs in \<open>num\<close> as a contiguous substring.\<close>

fun js_includes :: "string \<Rightarrow> string \<Rightarrow> bool" where
  "js_includes [] n = (n = [])"
| "js_includes (c # cs) n = (take (length n) (c # cs) = n \<or> js_includes cs n)"

text \<open>
  Truthiness of a JSON value, for \<open>args.phoneNumber || ""\<close>: null, false, 0 and the empty
  string are falsy.
\<close>

fun js_truthy :: "json \<Rightarrow> bool" where
  "js_truthy JNull = False"
| "js_truthy (JBool b) = b"
| "js_truthy (JNumber x) = (x \<noteq> 0)"
| "js_truthy (JString str) = (str \<noteq> [])"
| "js_truthy (JArray xs) = True"
| "js_truthy (JObject props) = True"

text \<open>
  The call \<open>num.includes(n)\<close> for a string \<open>n\<close>: a string has \<open>String.prototype.includes\<close>,
  an array \<open>Array.prototype.includes\<close> (true when an element is the string \<open>n\<close>); on a
  number, a boolean or an object of JSON the property is not a function and the call
  raises TypeError.
\<close>

fun includes_call :: "json \<Rightarrow> string \<Rightarrow> js_error + bool" where
  "includes_call (JString str) n = Inr (js_includes str n)"
| "includes_call (JArray xs) n = Inr (list_ex (\<lambda>x. x = JString n) xs)"
| "includes_call v n = Inl TypeError"

text \<open>\<open>MOCK_SCAM_NUMBERS.some(n => num.includes(n))\<close>: stops at the first true.\<close>

fun some_includes :: "json \<Rightarrow> string list \<Rightarrow> js_error + bool" where
  "some_includes num [] = Inr False"
| "some_includes num (n # ns) =
     (case includes_call num n of
        Inl e \<Rightarrow> Inl e
      | Inr found \<Rightarrow> if found then Inr True else some_includes num ns)"

text \<open>
  The if-chain on \<open>fc.name\<close> that computes \<open>result\<close>, starting from \<open>let result = {}\<close>.
  Reading \<open>args.phoneNumber\<close> raises TypeError when \<open>fc.args\<close> is undefined or null;
  \<open>args.phoneNumber || ""\<close> is the empty string when the property is absent or falsy.
\<close>

definition tool_result_of :: "function_call \<Rightarrow> js_error + tool_result" where
  "tool_result_of fc =
     (if fc_name fc = ''searchNearbyEvents'' then Inr (Events MOCK_EVENTS)
      else if fc_name fc = ''checkSuspiciousNumber'' then
        (case fc_args fc of
           None \<Rightarrow> Inl TypeError
         | Some args \<Rightarrow>
             let num = (case args ''phoneNumber'' of
                          None \<Rightarrow> JString []
                        | Some v \<Rightarrow> if js_truthy v then v else JString [])
             in case some_includes num MOCK_SCAM_NUMBERS of
                  Inl e \<Rightarrow> Inl e
                | Inr isScam \<Rightarrow>
                    Inr (ScamCheck isScam
                           (if isScam then ''DANGER: Scam detected.'' else ''Seems safe.'')))
      else Inr EmptyObject)"

text \<open>
  The loop \<open>for (const fc of msg.toolCall.functionCalls)\<close>. Each iteration hands one
  \<open>sendToolResponse\<close> with \<open>fc.id\<close>, \<open>fc.name\<close> and the result to the session. An
  exception leaves the loop: the responses of the earlier iterations stay, the later
  calls are not reached.
\<close>

fun toolCall_loop :: "function_call list \<Rightarrow> session \<Rightarrow> js_error option \<times> session" where
  "toolCall_loop [] s = (None, s)"
| "toolCall_loop (fc # fcs) s =
     (case tool_result_of fc of
        Inl e \<Rightarrow> (Some e, s)
      | Inr result \<Rightarrow>
          toolCall_loop fcs
            (s\<lparr>sent := sent s @
                 [ToolResponse \<lparr>fr_id = fc_id fc, fr_name = fc_name fc, fr_result = result\<rparr>]\<rparr>))"

text \<open>
  An inbound message, as far as \<open>onmessage\<close> reads it: the base64 string
  \<open>serverContent.modelTurn.parts[0].inlineData.data\<close> when present, and \<open>toolCall\<close>
  when present, whose \<open>functionCalls\<close> is optional in the service's message type. The
  test \<open>if (audioData)\<close> is on the string: the empty string is falsy and skipped like an
  absent one; every other string is decoded, and an exception of the decoding ends the
  handler before the tool-call loop. The loop \<open>for (const fc of ...)\<close> over an undefined
  \<open>functionCalls\<close> raises TypeError.
\<close>

record tool_call =
  functionCalls :: "function_call list option"

record server_message =
  audioData :: "string option"
  toolCall :: "tool_call option"

definition onmessage :: "real \<Rightarrow> real \<Rightarrow> server_message \<Rightarrow> session \<Rightarrow> js_error option \<times> session" where
  "onmessage now rnd msg s =
     (case (case audioData msg of
              None \<Rightarrow> Inr s
            | Some data \<Rightarrow>
                if data = [] then Inr s
                else (case base64ToUint8Array data of
                        Inl e \<Rightarrow> Inl e
                      | Inr audioBytes \<Rightarrow> handleAudio now rnd audioBytes s)) of
        Inl e \<Rightarrow> (Some e, s)
      | Inr s1 \<Rightarrow>
          (case toolCall msg of
             None \<Rightarrow> (None, s1)
           | Some tc \<Rightarrow>
               (case functionCalls tc of
                  None \<Rightarrow> (Some TypeError, s1)
                | Some fcs \<Rightarrow> toolCall_loop fcs s1)))"

text \<open>
  The inbound audio of a session: each arrival is \<open>(now, rnd, bytes)\<close>, handled in order by
  the audio part of \<open>onmessage\<close>; an arrival whose decoding raises changes nothing.
\<close>

fun audio_arrivals :: "(real \<times> real \<times> uint8 list) list \<Rightarrow> session \<Rightarrow> session" where
  "audio_arrivals [] s = s"
| "audio_arrivals ((now, rnd, audioBytes) # rest) s =
     (case handleAudio now rnd audioBytes s of
        Inl e \<Rightarrow> audio_arrivals rest s
      | Inr s1 \<Rightarrow> audio_arrivals rest s1)"

section \<open>Peer-to-peer calls (src/unnamed/part_001, component AppContent)\<close>

subsection \<open>The browser's objects\<close>

text \<open>
  \<open>RTCPeerConnection\<close>, as far as the code uses it: the signaling state, the two
  descriptions and the remote candidates it was given. \<open>setLocalDescription\<close>,
  \<open>setRemoteDescription\<close> and \<open>addIceCandidate\<close> reject (\<open>None\<close>) in a signaling state
  that does not admit them; \<open>close()\<close> sets the signaling state to \<open>closed\<close> for good.
\<close>

datatype sdp_kind = Offer | Answer

record session_description =
  desc_type :: sdp_kind
  desc_sdp :: string

datatype signaling_state = Stable | HaveLocalOffer | HaveRemoteOffer | Closed

record peer_connection =
  signalingState :: signaling_state
  localDescription :: "session_description option"
  remoteDescription :: "session_description option"
  remoteCandidates :: "string list"

definition new_RTCPeerConnection :: peer_connection where
  "new_RTCPeerConnection =
     \<lparr>signalingState = Stable, localDescription = None, remoteDescription = None,
      remoteCandidates = []\<rparr>"

definition setLocalDescription :: "session_description \<Rightarrow> peer_connection \<Rightarrow> peer_connection option" where
  "setLocalDescription d pc =
     (case desc_type d of
        Offer \<Rightarrow>
          if signalingState pc = Stable \<or> signalingState pc = HaveLocalOffer
          then Some (pc\<lparr>signalingState := HaveLocalOffer, localDescription := Some d\<rparr>)
          else None
      | Answer \<Rightarrow>
          if signalingState pc = HaveRemoteOffer
          then Some (pc\<lparr>signalingState := Stable, localDescription := Some d\<rparr>)
          else None)"

definition setRemoteDescription :: "session_description \<Rightarrow> peer_connection \<Rightarrow> peer_connection option" where
  "setRemoteDescription d pc =
     (case desc_type d of
        Offer \<Rightarrow>
          if signalingState pc = Stable \<or> signalingState pc = HaveRemoteOffer
          then Some (pc\<lparr>signalingState := HaveRemoteOffer, remoteDescription := Some d\<rparr>)
          else None
      | Answer \<Rightarrow>
          if signalingState pc = HaveLocalOffer
          then Some (pc\<lparr>signalingState := Stable, remoteDescription := Some d\<rparr>)
          else None)"

definition addIceCandidate :: "string \<Rightarrow> peer_connection \<Rightarrow> peer_connection option" where
  "addIceCandidate c pc =
     (if signalingState pc = Closed \<or> remoteDescription pc = None then None
      else Some (pc\<lparr>remoteCandidates := remoteCandidates pc @ [c]\<rparr>))"

definition close_pc :: "peer_connection \<Rightarrow> peer_connection" where
  "close_pc pc = pc\<lparr>signalingState := Closed\<rparr>"

text \<open>A media stream is the list of its tracks; \<open>track.stop()\<close> ends a track.\<close>

datatype track = Live | Ended

type_synonym media_stream = "track list"

definition stop_tracks :: "media_stream \<Rightarrow> media_stream" where
  "stop_tracks st = map (\<lambda>t. Ended) st"

subsection \<open>The relay store\<close>

text \<open>
  \<open>calls/{id}\<close> holds \<open>{type: 'offer', from, fromName, offer}\<close> or
  \<open>{type: 'answer', from, answer}\<close>; \<open>candidates/{id}\<close> holds the list of pushed
  \<open>{from, candidate}\<close> entries. \<open>remove\<close> deletes the entry of an address.
\<close>

datatype call_record =
  OfferRecord string string session_description
  | AnswerRecord string session_description

record candidate_record =
  cand_from :: string
  candidate :: string

subsection \<open>The component's state\<close>

datatype call_type = Incoming | Outgoing

record call_state =
  isInCall :: bool
  callType :: "call_type option"
  remoteUserId :: "string option"
  remoteUserName :: "string option"

record user =
  uid :: string
  displayName :: "string option"
  email :: "string option"

text \<open>
  The listeners that \<open>initiateCall\<close> and \<open>acceptCall\<close> register at the relay store. Each
  closure holds the peer connection \<open>pc\<close> it was created with (here its handle); the offer
  listener also holds \<open>callState.remoteUserId\<close>.
\<close>

datatype listener =
  AnswerListener nat
  | OfferListener nat string
  | CandidateListener nat

text \<open>
  \<open>AppContent\<close> has the state of the streaming session and that of the calls. Peer
  connections and media streams are objects shared between the refs and the listeners'
  closures: \<open>pcs\<close> and \<open>streams\<close> are the stores of these objects, a handle is an index.
  \<open>calls\<close> and \<open>candidates\<close> are the two trees of the relay store.
\<close>

record app = session +
  currentUser :: "user option"
  myUserId :: string
  callState :: call_state
  peerConnectionRef :: "nat option"
  localStreamRef :: "nat option"
  pcs :: "peer_connection list"
  streams :: "media_stream list"
  calls :: "string \<rightharpoonup> call_record"
  candidates :: "string \<rightharpoonup> candidate_record list"
  listeners :: "listener list"

definition idle_call :: call_state where
  "idle_call =
     \<lparr>isInCall = False, callType = None, remoteUserId = None, remoteUserName = None\<rparr>"

text \<open>The initial values of \<open>useState\<close> and \<open>useRef\<close>, for a signed-in user and a relay store.\<close>

definition init_app ::
  "user \<Rightarrow> string \<Rightarrow> (string \<rightharpoonup> call_record) \<Rightarrow> (string \<rightharpoonup> candidate_record list) \<Rightarrow> app" where
  "init_app u userId cs cands =
     \<lparr>connected = False, isMicOn = True, volumeLevel = 0, errorMsg = None,
      audioContextRef = None, processorRef = None, sessionRef = None,
      nextStartTimeRef = 0, started = [], sent = [],
      currentUser = Some u, myUserId = userId, callState = idle_call,
      peerConnectionRef = None, localStreamRef = None, pcs = [], streams = [],
      calls = cs, candidates = cands, listeners = []\<rparr>"

subsection \<open>Call operations\<close>

text \<open>
  What the awaited calls of \<open>initiateCall\<close> and \<open>acceptCall\<close> return: whether
  \<open>getUserMedia\<close> resolves, the SDP that \<open>createOffer\<close> or \<open>createAnswer\<close> produces, and
  whether the write to the relay store resolves.
\<close>

record call_env =
  userMedia :: bool
  localSdp :: string
  relayWrite :: bool

text \<open>\<open>currentUser.displayName || currentUser.email?.split('@')[0] || 'Villager'\<close>\<close>

definition fromName_of :: "user \<Rightarrow> string" where
  "fromName_of u =
     (let byEmail =
            (case email u of
               None \<Rightarrow> ''Villager''
             | Some e \<Rightarrow>
                 let name = takeWhile (\<lambda>c. c \<noteq> CHR ''@'') e
                 in if name = [] then ''Villager'' else name)
      in case displayName u of
           None \<Rightarrow> byEmail
         | Some d \<Rightarrow> if d = [] then byEmail else d)"

text \<open>
  \<open>initiateCall(friendId, friendName)\<close>. The first statement is
  \<open>if (!currentUser || callState.isInCall) return;\<close>. An exception of the body is caught
  and sets the error message; what was assigned before it stays.
\<close>

definition initiateCall :: "string \<Rightarrow> string \<Rightarrow> call_env \<Rightarrow> app \<Rightarrow> app" where
  "initiateCall friendId friendName e s =
     (case currentUser s of
        None \<Rightarrow> s
      | Some u \<Rightarrow>
          if isInCall (callState s) then s
          else if \<not> userMedia e then s\<lparr>errorMsg := Some ''Failed to start call''\<rparr>
          else
            let stream = length (streams s);
                pc = length (pcs s);
                s1 = s\<lparr>streams := streams s @ [[Live]], localStreamRef := Some stream,
                       pcs := pcs s @ [new_RTCPeerConnection], peerConnectionRef := Some pc\<rparr>;
                offer = \<lparr>desc_type = Offer, desc_sdp = localSdp e\<rparr>
            in case setLocalDescription offer (pcs s1 ! pc) of
                 None \<Rightarrow> s1\<lparr>errorMsg := Some ''Failed to start call''\<rparr>
               | Some pc1 \<Rightarrow>
                   let s2 = s1\<lparr>pcs := (pcs s1)[pc := pc1]\<rparr>
                   in if \<not> relayWrite e then s2\<lparr>errorMsg := Some ''Failed to start call''\<rparr>
                      else s2\<lparr>calls := (calls s2)(friendId \<mapsto>
                                         OfferRecord (myUserId s2) (fromName_of u) offer),
                              callState := \<lparr>isInCall = True, callType = Some Outgoing,
                                            remoteUserId = Some friendId,
                                            remoteUserName = Some friendName\<rparr>,
                              listeners := listeners s2 @
                                             [AnswerListener pc, CandidateListener pc]\<rparr>)"

text \<open>
  \<open>acceptCall()\<close>. The first statement is
  \<open>if (!callState.remoteUserId || !currentUser) return;\<close> (an empty string is falsy).
  The offer is read and answered by the offer listener registered here.
\<close>

definition acceptCall :: "call_env \<Rightarrow> app \<Rightarrow> app" where
  "acceptCall e s =
     (case remoteUserId (callState s) of
        None \<Rightarrow> s
      | Some remote \<Rightarrow>
          if remote = [] \<or> currentUser s = None then s
          else if \<not> userMedia e then s\<lparr>errorMsg := Some ''Failed to accept call''\<rparr>
          else
            let stream = length (streams s);
                pc = length (pcs s);
                s1 = s\<lparr>streams := streams s @ [[Live]], localStreamRef := Some stream,
                       pcs := pcs s @ [new_RTCPeerConnection], peerConnectionRef := Some pc\<rparr>
            in s1\<lparr>listeners := listeners s1 @ [OfferListener pc remote, CandidateListener pc],
                   callState := (callState s1)\<lparr>isInCall := True\<rparr>\<rparr>)"

text \<open>\<open>endCall()\<close>\<close>

definition endCall :: "app \<Rightarrow> app" where
  "endCall s =
     (let s1 = (case peerConnectionRef s of
                  None \<Rightarrow> s
                | Some pc \<Rightarrow> s\<lparr>pcs := (pcs s)[pc := close_pc (pcs s ! pc)],
                               peerConnectionRef := None\<rparr>);
          s2 = (case localStreamRef s1 of
                  None \<Rightarrow> s1
                | Some st \<Rightarrow> s1\<lparr>streams := (streams s1)[st := stop_tracks (streams s1 ! st)],
                               localStreamRef := None\<rparr>);
          s3 = (case remoteUserId (callState s2) of
                  None \<Rightarrow> s2
                | Some remote \<Rightarrow>
                    if remote = [] then s2
                    else s2\<lparr>calls := (calls s2)(remote := None),
                            candidates := (candidates s2)(remote := None)\<rparr>);
          s4 = s3\<lparr>calls := (calls s3)(myUserId s3 := None),
                  candidates := (candidates s3)(myUserId s3 := None)\<rparr>
      in s4\<lparr>callState := idle_call\<rparr>)"

text \<open>\<open>declineCall()\<close>\<close>

definition declineCall :: "app \<Rightarrow> app" where
  "declineCall s =
     (let s1 = s\<lparr>calls := (calls s)(myUserId s := None)\<rparr>
      in s1\<lparr>callState := idle_call\<rparr>)"

subsection \<open>Signaling callbacks\<close>

text \<open>
  The listener on \<open>calls/{userId}\<close> installed when the component mounts: an offer record
  makes the call state \<open>incoming\<close>.
\<close>

definition incoming_listener :: "call_record option \<Rightarrow> app \<Rightarrow> app" where
  "incoming_listener callData s =
     (case callData of
        Some (OfferRecord from fromName offer) \<Rightarrow>
          s\<lparr>callState := \<lparr>isInCall = False, callType = Some Incoming,
                          remoteUserId = Some from, remoteUserName = Some fromName\<rparr>\<rparr>
      | _ \<Rightarrow> s)"

text \<open>
  The answer listener of \<open>initiateCall\<close>:
  \<^verbatim>\<open>if (data && data.type === 'answer' && pc.signalingState !== 'closed')
    await pc.setRemoteDescription(new RTCSessionDescription(data.answer));\<close>
  A rejection of the awaited call is not caught and changes nothing.
\<close>

definition answer_listener :: "nat \<Rightarrow> call_record option \<Rightarrow> app \<Rightarrow> app" where
  "answer_listener pc data s =
     (case data of
        Some (AnswerRecord from answer) \<Rightarrow>
          if signalingState (pcs s ! pc) \<noteq> Closed then
            (case setRemoteDescription answer (pcs s ! pc) of
               None \<Rightarrow> s
             | Some pc1 \<Rightarrow> s\<lparr>pcs := (pcs s)[pc := pc1]\<rparr>)
          else s
      | _ \<Rightarrow> s)"

text \<open>
  The offer listener of \<open>acceptCall\<close> (\<open>onlyOnce\<close>): under the guard
  \<open>data && data.offer && pc.signalingState !== 'closed'\<close> it sets the remote description,
  creates the answer (with SDP \<open>answerSdp\<close>), sets it as local description and writes the
  answer record to \<open>calls/{remoteUserId}\<close>.
\<close>

definition offer_listener :: "nat \<Rightarrow> string \<Rightarrow> string \<Rightarrow> call_record option \<Rightarrow> app \<Rightarrow> app" where
  "offer_listener pc remote answerSdp data s =
     (case data of
        Some (OfferRecord from fromName offer) \<Rightarrow>
          if signalingState (pcs s ! pc) \<noteq> Closed then
            (case setRemoteDescription offer (pcs s ! pc) of
               None \<Rightarrow> s
             | Some pc1 \<Rightarrow>
                 let answer = \<lparr>desc_type = Answer, desc_sdp = answerSdp\<rparr>
                 in case setLocalDescription answer pc1 of
                      None \<Rightarrow> s\<lparr>pcs := (pcs s)[pc := pc1]\<rparr>
                    | Some pc2 \<Rightarrow>
                        s\<lparr>pcs := (pcs s)[pc := pc2],
                          calls := (calls s)(remote \<mapsto> AnswerRecord (myUserId s) answer)\<rparr>)
          else s
      | _ \<Rightarrow> s)"

text \<open>
  The candidate listener of both (\<open>onChildAdded\<close> on \<open>candidates/{myUserId}\<close>):
  \<^verbatim>\<open>if (data && data.candidate && pc.signalingState !== 'closed')
    await pc.addIceCandidate(new RTCIceCandidate(data.candidate));\<close>
  \<open>None\<close> stands for a snapshot without a candidate.
\<close>

definition candidate_listener :: "nat \<Rightarrow> candidate_record option \<Rightarrow> app \<Rightarrow> app" where
  "candidate_listener pc data s =
     (case data of
        None \<Rightarrow> s
      | Some c \<Rightarrow>
          if signalingState (pcs s ! pc) \<noteq> Closed then
            (case addIceCandidate (candidate c) (pcs s ! pc) of
               None \<Rightarrow> s
             | Some pc1 \<Rightarrow> s\<lparr>pcs := (pcs s)[pc := pc1]\<rparr>)
          else s)"

subsection \<open>Starting the streaming session\<close>

text \<open>
  \<open>startSession()\<close> of \<open>AppContent\<close>, up to the call of \<open>ai.live.connect\<close>, which is not
  awaited. The two \<open>throw\<close>s are caught at the end of the function, where the message is
  shown and \<open>connected\<close> is set to false; a rejected \<open>getUserMedia\<close> is replaced by a
  silent stream.
\<close>

definition startSession :: "session_env \<Rightarrow> app \<Rightarrow> app" where
  "startSession e s =
     (let s0 = s\<lparr>errorMsg := None\<rparr>
      in if \<not> apiKey e then
           s0\<lparr>errorMsg := Some ''API key is missing! Check your .env file'', connected := False\<rparr>
         else if \<not> audioContextClass e then
           s0\<lparr>errorMsg := Some ''AudioContext not supported'', connected := False\<rparr>
         else
           let s1 = s0\<lparr>audioContextRef := Some Running\<rparr>;
               s2 = (case micError e of
                       None \<Rightarrow> s1
                     | Some name \<Rightarrow>
                         s1\<lparr>isMicOn := False,
                            errorMsg := Some (''Mic error: '' @ name @ '' - Audio Input Disabled'')\<rparr>);
               s3 = s2\<lparr>connected := True\<rparr>
           in s3\<lparr>sessionRef := Some \<lparr>cl_isMicOn = isMicOn s,
                                      cl_sampleRate = ctxSampleRate e\<rparr>\<rparr>)"

subsection \<open>Sample states\<close>

text \<open>
  Two signed-in users, and the states of a call between them that the concrete checks
  below use: the caller after \<open>initiateCall\<close> on an empty relay store, and the callee whose
  mount-time listener has seen the caller's offer.
\<close>

definition user_a :: user where
  "user_a = \<lparr>uid = ''aaaa0001xyz'', displayName = Some ''Aini'', email = Some ''aini@example.org''\<rparr>"

definition user_b :: user where
  "user_b = \<lparr>uid = ''bbbb0002xyz'', displayName = None, email = Some ''badrul@example.org''\<rparr>"

definition ok_env :: call_env where
  "ok_env = \<lparr>userMedia = True, localSdp = ''v=0 a'', relayWrite = True\<rparr>"

definition caller_in_call :: app where
  "caller_in_call =
     initiateCall ''KP-BBBB0002'' ''Badrul'' ok_env
       (init_app user_a ''KP-AAAA0001'' Map.empty Map.empty)"

definition callee_ringing :: app where
  "callee_ringing =
     incoming_listener (calls caller_in_call ''KP-BBBB0002'')
       (init_app user_b ''KP-BBBB0002'' (calls caller_in_call) (candidates caller_in_call))"

definition ok_session_env :: session_env where
  "ok_session_env =
     \<lparr>apiKey = True, audioContextClass = True, ctxSampleRate = 48000, micError = None\<rparr>"

text \<open>
  A session of \<open>App\<close> that is started, muted and stopped, and the next session, started
  while the mic flag is off.
\<close>

definition muted_and_stopped :: session where
  "muted_and_stopped =
     stopSession (toggleMic (onopen (App_startSession ok_session_env init_session)))"

definition started_muted :: session where
  "started_muted = onopen (App_startSession ok_session_env muted_and_stopped)"

text \<open>
  Three audio arrivals \<open>(now, rnd, bytes)\<close>: two samples, a malformed chunk of three
  bytes, one sample.
\<close>

definition sample_arrivals :: "(real \<times> real \<times> uint8 list) list" where
  "sample_arrivals =
     [(0, 0, [0, 64, 0, 64]), (1 / 100000, 0, [1, 2, 3]), (2 / 100000, 1 / 2, [0, 0])]"

text \<open>
  A message with one chunk of audio (the base64 of the bytes 0 and 64) and two function
  calls, the first with a name that the loop does not know.
\<close>

definition sample_calls :: "function_call list" where
  "sample_calls =
     [\<lparr>fc_id = ''call-1'', fc_name = ''getWeather'', fc_args = Some Map.empty\<rparr>,
      \<lparr>fc_id = ''call-2'', fc_name = ''checkSuspiciousNumber'',
         fc_args = Some [''phoneNumber'' \<mapsto> JString ''+65 99998888'']\<rparr>]"

definition sample_message :: server_message where
  "sample_message =
     \<lparr>audioData = Some ''AEA='', toolCall = Some \<lparr>functionCalls = Some sample_calls\<rparr>\<rparr>"

subsection \<open>Invariant of the playback schedule\<close>

text \<open>
  The scheduled start times are sorted, each buffer ends before the next one starts, and
  every scheduled buffer ends at or before the cursor.
\<close>

definition chained :: "session \<Rightarrow> bool" where
  "chained s \<longleftrightarrow>
     sorted (map fst (started s))
     \<and> (\<forall>i. Suc i < length (started s) \<longrightarrow>
           fst (started s ! i) + duration (snd (started s ! i)) \<le> fst (started s ! Suc i))
     \<and> (\<forall>x \<in> set (started s). fst x + duration (snd x) \<le> nextStartTimeRef s)"

section \<open>Properties of the PCM codec\<close>

lemma int16_of_bytes:
  "(ucast (ucast w :: uint8) :: int16) OR push_bit 8 (ucast (ucast (drop_bit 8 w :: int16) :: uint8)) = w"
  by (rule bit_word_eqI) (auto simp: bit_simps)

lemma int16_view_bytes: "int16_view (int16_bytes w @ bs) = w # int16_view bs"
  by (simp add: int16_bytes_def int16_of_bytes)

lemma int16_view_buffer_of: "int16_view (buffer_of ws) = ws"
  by (induction ws) (simp_all add: buffer_of_def int16_view_bytes)

lemma length_buffer_of: "length (buffer_of ws) = 2 * length ws"
  by (induction ws) (simp_all add: buffer_of_def int16_bytes_def)

lemma sint_int16: "- 32768 \<le> k \<Longrightarrow> k \<le> 32767 \<Longrightarrow> sint (word_of_int k :: int16) = k"
  by (simp add: sint_sbintrunc' signed_take_bit_int_eq_self)

lemma pcm16_sample_neg:
  assumes "- 1 \<le> x" "x < 0"
  shows "sint (pcm16_sample x) = \<lceil>x * 32768\<rceil>"
proof -
  have "- 32768 \<le> \<lceil>x * 32768\<rceil>" using assms by (simp add: le_ceiling_iff)
  moreover have "\<lceil>x * 32768\<rceil> \<le> 0" using assms by (simp add: ceiling_le_iff)
  ultimately show ?thesis using assms
    by (simp add: pcm16_sample_def to_int16_def js_trunc_def sint_int16)
qed

lemma pcm16_sample_nonneg:
  assumes "0 \<le> x" "x \<le> 1"
  shows "sint (pcm16_sample x) = \<lfloor>x * 32767\<rfloor>"
proof -
  have "0 \<le> \<lfloor>x * 32767\<rfloor>" using assms by simp
  moreover have "\<lfloor>x * 32767\<rfloor> \<le> 32767" using assms by (simp add: floor_le_iff)
  ultimately show ?thesis using assms
    by (simp add: pcm16_sample_def to_int16_def js_trunc_def sint_int16)
qed

lemma pcm16_sample_error:
  assumes "- 1 \<le> x" "x \<le> 1"
  shows "\<bar>real_of_int (sint (pcm16_sample x)) / 32768 - x\<bar> < 1 / 16384"
proof (cases "x < 0")
  case True
  define k where "k = real_of_int \<lceil>x * 32768\<rceil>"
  have "k < x * 32768 + 1" "x * 32768 \<le> k" unfolding k_def by linarith+
  then have "\<bar>k / 32768 - x\<bar> < 1 / 16384" by (simp add: abs_less_iff field_simps)
  then show ?thesis using True assms by (simp add: pcm16_sample_neg k_def)
next
  case False
  define k where "k = real_of_int \<lfloor>x * 32767\<rfloor>"
  have "x * 32767 - 1 < k" "k \<le> x * 32767" unfolding k_def by linarith+
  with False assms have "\<bar>k / 32768 - x\<bar> < 1 / 16384" by (simp add: abs_less_iff field_simps)
  then show ?thesis using False assms by (simp add: pcm16_sample_nonneg k_def)
qed

text \<open>
  Claim C3, as the spec states it, at the one-sample array \<open>[65535/65536]\<close> (a Float32
  value): the encoder stores \<open>trunc (32767 * 65535 / 65536) = 32766\<close>, the decoder returns
  \<open>32766 / 32768 = 16383/16384\<close>, and the distance to the sample is \<open>3/65536\<close>, more than
  the one quantization step \<open>1/32768\<close> that the claim allows.
\<close>

theorem pcm_roundtrip_one_step_counterexample:
  "decodeAudioData (buffer_of (pcm16 [65535 / 65536]))
     = Inr \<lparr>sampleRate = 24000, channelData = [16383 / 16384]\<rparr>
   \<and> \<not> \<bar>16383 / 16384 - 65535 / 65536\<bar> \<le> (1 / 32768 :: real)"
  by (simp add: decodeAudioData_def buffer_of_def pcm16_def int16_bytes_def pcm16_sample_def
      to_int16_def js_trunc_def)

text \<open>
  Claim C3, amended: for every non-empty array \<open>s\<close> of samples in [-1,1], decoding the
  encoded array returns a buffer of the same length whose i-th element differs from
  \<open>s ! i\<close> by less than two quantization steps, \<open>2/32768 = 1/16384\<close>. (Negative samples
  are scaled by 32768 and are within one step; non-negative samples are scaled by 32767 and
  truncated, which costs up to one further step.)
\<close>

theorem pcm_roundtrip_two_steps:
  assumes "s \<noteq> []" and "\<forall>x \<in> set s. - 1 \<le> x \<and> x \<le> 1"
  shows "\<exists>b. decodeAudioData (buffer_of (pcm16 s)) = Inr b
           \<and> length (channelData b) = length s
           \<and> (\<forall>i < length s. \<bar>channelData b ! i - s ! i\<bar> < 1 / 16384)"
proof -
  let ?b = "\<lparr>sampleRate = 24000,
             channelData = map (\<lambda>w. real_of_int (sint w) / 32768) (pcm16 s)\<rparr>"
  have dec: "decodeAudioData (buffer_of (pcm16 s)) = Inr ?b"
    using assms(1) by (simp add: decodeAudioData_def length_buffer_of int16_view_buffer_of pcm16_def)
  have len: "length (channelData ?b) = length s"
    by (simp add: pcm16_def)
  have err: "\<bar>channelData ?b ! i - s ! i\<bar> < 1 / 16384" if "i < length s" for i
  proof -
    have "- 1 \<le> s ! i \<and> s ! i \<le> 1" using assms(2) that by simp
    then have "\<bar>real_of_int (sint (pcm16_sample (s ! i))) / 32768 - s ! i\<bar> < 1 / 16384"
      by (simp only: pcm16_sample_error)
    moreover have "channelData ?b ! i = real_of_int (sint (pcm16_sample (s ! i))) / 32768"
      using that by (simp add: pcm16_def)
    ultimately show ?thesis by (simp only:)
  qed
  from dec len err show ?thesis by blast
qed

theorem pcm_roundtrip_two_steps_witness:
  "\<exists>b. decodeAudioData (buffer_of (pcm16 [65535 / 65536, - 1 / 2])) = Inr b
         \<and> length (channelData b) = 2
         \<and> \<bar>channelData b ! 0 - 65535 / 65536\<bar> < 1 / 16384
         \<and> \<bar>channelData b ! 1 - (- 1 / 2)\<bar> < 1 / 16384"
proof -
  have ne: "[65535 / 65536, - 1 / 2] \<noteq> ([] :: real list)" by simp
  have rg: "\<forall>x \<in> set [65535 / 65536, - 1 / 2 :: real]. - 1 \<le> x \<and> x \<le> 1" by simp
  from pcm_roundtrip_two_steps [OF ne rg] obtain b where
    b: "decodeAudioData (buffer_of (pcm16 [65535 / 65536, - 1 / 2])) = Inr b"
       "length (channelData b) = length [65535 / 65536, - 1 / 2 :: real]"
       "\<forall>i < length [65535 / 65536, - 1 / 2 :: real].
          \<bar>channelData b ! i - [65535 / 65536, - 1 / 2] ! i\<bar> < 1 / 16384"
    by blast
  have "\<bar>channelData b ! 0 - 65535 / 65536\<bar> < 1 / 16384"
    using b(3) [rule_format, of 0] by simp
  moreover have "\<bar>channelData b ! 1 - (- 1 / 2)\<bar> < 1 / 16384"
    using b(3) [rule_format, of 1] by simp
  ultimately show ?thesis using b(1,2) by simp
qed

text \<open>
  Claim C4 at a buffer of three bytes: \<open>decodeAudioData\<close> builds \<open>new Int16Array(data.buffer)\<close>
  without trimming, so the constructor raises RangeError; the claim asks for the decoding of
  the first two bytes.
\<close>

theorem decodeAudioData_odd_length_raises:
  "decodeAudioData [0, 0, 0] = Inl RangeError"
  by (simp add: decodeAudioData_def)

section \<open>Properties of the playback schedule\<close>

lemma duration_nonneg: "0 \<le> duration b"
  by (simp add: duration_def)

lemma handleAudio_Inr:
  assumes "handleAudio now rnd audioBytes s = Inr s1"
  shows "\<exists>audioBuffer. decodeAudioData audioBytes = Inr audioBuffer
           \<and> started s1 = started s @ [(max now (nextStartTimeRef s), audioBuffer)]
           \<and> nextStartTimeRef s1 = max now (nextStartTimeRef s) + duration audioBuffer"
  using assms by (auto simp: handleAudio_def Let_def split: sum.splits)

lemma chained_handleAudio:
  assumes "chained s" "handleAudio now rnd audioBytes s = Inr s1"
  shows "chained s1"
proof -
  from handleAudio_Inr [OF assms(2)] obtain b where
    st: "started s1 = started s @ [(max now (nextStartTimeRef s), b)]"
    and nx: "nextStartTimeRef s1 = max now (nextStartTimeRef s) + duration b"
    by blast
  let ?t = "max now (nextStartTimeRef s)"
  have le: "fst x + duration (snd x) \<le> ?t" if "x \<in> set (started s)" for x
    using assms(1) that by (fastforce simp: chained_def)
  have le': "fst x \<le> ?t" if "x \<in> set (started s)" for x
    using le [OF that] duration_nonneg [of "snd x"] by linarith
  have 1: "sorted (map fst (started s1))"
    using assms(1) le' by (auto simp: st chained_def sorted_append)
  have 2: "fst (started s1 ! i) + duration (snd (started s1 ! i)) \<le> fst (started s1 ! Suc i)"
    if "Suc i < length (started s1)" for i
  proof (cases "Suc i < length (started s)")
    case True
    then show ?thesis using assms(1) by (simp add: st chained_def nth_append)
  next
    case False
    with that have i: "Suc i = length (started s)" by (simp add: st)
    then have "started s ! i \<in> set (started s)" by simp
    from le [OF this] show ?thesis using i by (simp add: st nth_append)
  qed
  have 3: "fst x + duration (snd x) \<le> nextStartTimeRef s1" if "x \<in> set (started s1)" for x
  proof (cases "x \<in> set (started s)")
    case True
    from le [OF this] show ?thesis using duration_nonneg [of b] by (simp add: nx)
  next
    case False
    with that have "x = (?t, b)" by (simp add: st)
    then show ?thesis by (simp add: nx)
  qed
  from 1 2 3 show ?thesis unfolding chained_def by blast
qed

lemma chained_audio_arrivals: "chained s \<Longrightarrow> chained (audio_arrivals arrivals s)"
proof (induction arrivals arbitrary: s)
  case Nil
  then show ?case by simp
next
  case (Cons a arrivals)
  obtain now rnd audioBytes where a: "a = (now, rnd, audioBytes)" by (cases a)
  show ?case
  proof (cases "handleAudio now rnd audioBytes s")
    case (Inl e)
    then show ?thesis using Cons a by simp
  next
    case (Inr s1)
    then show ?thesis using Cons.IH [OF chained_handleAudio [OF Cons.prems Inr]] a by simp
  qed
qed

text \<open>
  Claim C2: a chunk that decodes is scheduled at \<open>max now nextStart\<close> and the cursor is set
  to that start plus the duration of the buffer; and for every sequence of arrivals, at
  arbitrary clock values, handled from a state with nothing scheduled yet, the scheduled
  start times are non-decreasing and each scheduled buffer ends at or before the start of
  the next. (Times are reals; the duration of a buffer is its frame count over its sample
  rate.)
\<close>

theorem playback_schedule_sequential:
  assumes "started s = []"
  shows "(\<forall>now rnd audioBytes s0 s1. handleAudio now rnd audioBytes s0 = Inr s1 \<longrightarrow>
            (\<exists>audioBuffer. decodeAudioData audioBytes = Inr audioBuffer
               \<and> started s1 = started s0 @ [(max now (nextStartTimeRef s0), audioBuffer)]
               \<and> nextStartTimeRef s1 = max now (nextStartTimeRef s0) + duration audioBuffer))
         \<and> sorted (map fst (started (audio_arrivals arrivals s)))
         \<and> (\<forall>i. Suc i < length (started (audio_arrivals arrivals s)) \<longrightarrow>
               fst (started (audio_arrivals arrivals s) ! i)
                 + duration (snd (started (audio_arrivals arrivals s) ! i))
               \<le> fst (started (audio_arrivals arrivals s) ! Suc i))"
proof -
  have "chained s" using assms by (simp add: chained_def)
  then have "chained (audio_arrivals arrivals s)" by (rule chained_audio_arrivals)
  then show ?thesis using handleAudio_Inr unfolding chained_def by blast
qed

lemma started_sample_arrivals:
  "started (audio_arrivals sample_arrivals init_session)
     = [(0, \<lparr>sampleRate = 24000, channelData = [1 / 2, 1 / 2]\<rparr>),
        (1 / 12000, \<lparr>sampleRate = 24000, channelData = [0]\<rparr>)]"
  by (simp add: sample_arrivals_def handleAudio_def decodeAudioData_def init_session_def
      duration_def)

theorem playback_schedule_sequential_witness:
  "length (started (audio_arrivals sample_arrivals init_session)) = 2
   \<and> sorted (map fst (started (audio_arrivals sample_arrivals init_session)))
   \<and> fst (started (audio_arrivals sample_arrivals init_session) ! 0)
       + duration (snd (started (audio_arrivals sample_arrivals init_session) ! 0))
     \<le> fst (started (audio_arrivals sample_arrivals init_session) ! Suc 0)"
proof -
  have h: "started init_session = []" by (simp add: init_session_def)
  have len: "length (started (audio_arrivals sample_arrivals init_session)) = 2"
    by (simp add: started_sample_arrivals)
  note t = playback_schedule_sequential [OF h, of sample_arrivals]
  from t have srt: "sorted (map fst (started (audio_arrivals sample_arrivals init_session)))"
    by blast
  from t have "Suc 0 < length (started (audio_arrivals sample_arrivals init_session)) \<longrightarrow>
      fst (started (audio_arrivals sample_arrivals init_session) ! 0)
        + duration (snd (started (audio_arrivals sample_arrivals init_session) ! 0))
      \<le> fst (started (audio_arrivals sample_arrivals init_session) ! Suc 0)"
    by blast
  with len srt show ?thesis by simp
qed

section \<open>Properties of the tool-call loop\<close>

lemmas base64_defs =
  base64ToUint8Array_def strip_padding_def ascii_whitespace_def base64_alphabet_def

lemma handleAudio_sent: "handleAudio now rnd audioBytes s = Inr s1 \<Longrightarrow> sent s1 = sent s"
  by (auto simp: handleAudio_def Let_def split: sum.splits)

lemma handleAudio_even:
  "audioBytes \<noteq> [] \<Longrightarrow> even (length audioBytes)
     \<Longrightarrow> \<exists>s1. handleAudio now rnd audioBytes s = Inr s1"
  by (cases audioBytes rule: int16_view.cases)
    (auto simp: handleAudio_def decodeAudioData_def Let_def)

lemma some_includes_string:
  "some_includes (JString p) ns = Inr (list_ex (\<lambda>n. js_includes p n) ns)"
  by (induction ns) simp_all

lemma tool_result_of_total:
  assumes "fc_name fc = ''checkSuspiciousNumber'' \<longrightarrow>
             (\<exists>args. fc_args fc = Some args
                \<and> (\<forall>v. args ''phoneNumber'' = Some v \<longrightarrow> (\<exists>p. v = JString p)))"
  shows "\<exists>result. tool_result_of fc = Inr result"
proof (cases "fc_name fc = ''checkSuspiciousNumber''")
  case False
  then show ?thesis by (simp add: tool_result_of_def)
next
  case True
  with assms obtain args where a: "fc_args fc = Some args"
    and v: "\<forall>v. args ''phoneNumber'' = Some v \<longrightarrow> (\<exists>p. v = JString p)"
    by blast
  have "\<exists>p. (case args ''phoneNumber'' of
                 None \<Rightarrow> JString []
               | Some v \<Rightarrow> if js_truthy v then v else JString []) = JString p"
    using v by (cases "args ''phoneNumber''") auto
  then obtain p where "(case args ''phoneNumber'' of
                 None \<Rightarrow> JString []
               | Some v \<Rightarrow> if js_truthy v then v else JString []) = JString p" ..
  then show ?thesis using True a
    by (simp add: tool_result_of_def Let_def some_includes_string)
qed

lemma toolCall_loop_answers:
  assumes "\<forall>fc \<in> set fcs. fc_name fc = ''checkSuspiciousNumber'' \<longrightarrow>
             (\<exists>args. fc_args fc = Some args
                \<and> (\<forall>v. args ''phoneNumber'' = Some v \<longrightarrow> (\<exists>p. v = JString p)))"
  shows "\<exists>rs. toolCall_loop fcs s = (None, s\<lparr>sent := sent s @ map ToolResponse rs\<rparr>)
           \<and> map fr_id rs = map fc_id fcs
           \<and> map fr_name rs = map fc_name fcs
           \<and> (\<forall>i < length fcs.
                 fc_name (fcs ! i) \<noteq> ''searchNearbyEvents''
                 \<and> fc_name (fcs ! i) \<noteq> ''checkSuspiciousNumber''
                 \<longrightarrow> fr_result (rs ! i) = EmptyObject)"
  using assms
proof (induction fcs arbitrary: s)
  case Nil
  then show ?case by simp
next
  case (Cons fc fcs)
  from Cons.prems have "fc_name fc = ''checkSuspiciousNumber'' \<longrightarrow>
             (\<exists>args. fc_args fc = Some args
                \<and> (\<forall>v. args ''phoneNumber'' = Some v \<longrightarrow> (\<exists>p. v = JString p)))"
    by simp
  from tool_result_of_total [OF this] obtain result where r: "tool_result_of fc = Inr result" ..
  have e: "fc_name fc \<noteq> ''searchNearbyEvents'' \<and> fc_name fc \<noteq> ''checkSuspiciousNumber''
            \<longrightarrow> result = EmptyObject"
    using r by (auto simp: tool_result_of_def)
  let ?r = "\<lparr>fr_id = fc_id fc, fr_name = fc_name fc, fr_result = result\<rparr>"
  let ?s = "s\<lparr>sent := sent s @ [ToolResponse ?r]\<rparr>"
  from Cons.prems
  have "\<forall>fc \<in> set fcs. fc_name fc = ''checkSuspiciousNumber'' \<longrightarrow>
             (\<exists>args. fc_args fc = Some args
                \<and> (\<forall>v. args ''phoneNumber'' = Some v \<longrightarrow> (\<exists>p. v = JString p)))"
    by simp
  from Cons.IH [OF this, of ?s] obtain rs where
    rs: "toolCall_loop fcs ?s = (None, ?s\<lparr>sent := sent ?s @ map ToolResponse rs\<rparr>)"
        "map fr_id rs = map fc_id fcs" "map fr_name rs = map fc_name fcs"
        "\<forall>i < length fcs.
                 fc_name (fcs ! i) \<noteq> ''searchNearbyEvents''
                 \<and> fc_name (fcs ! i) \<noteq> ''checkSuspiciousNumber''
                 \<longrightarrow> fr_result (rs ! i) = EmptyObject"
    by blast
  have 1: "toolCall_loop (fc # fcs) s = (None, s\<lparr>sent := sent s @ map ToolResponse (?r # rs)\<rparr>)"
    using r rs(1) by simp
  have 2: "map fr_id (?r # rs) = map fc_id (fc # fcs)"
    "map fr_name (?r # rs) = map fc_name (fc # fcs)"
    using rs(2,3) by simp_all
  have 3: "fc_name ((fc # fcs) ! i) \<noteq> ''searchNearbyEvents''
                 \<and> fc_name ((fc # fcs) ! i) \<noteq> ''checkSuspiciousNumber''
                 \<longrightarrow> fr_result ((?r # rs) ! i) = EmptyObject" if "i < length (fc # fcs)" for i
    using that e rs(4) by (cases i) simp_all
  from 1 2 3 show ?case by blast
qed

text \<open>
  Claim C1, as the spec states it, at a message with one function call named
  \<open>getWeather\<close>, a name outside the two that the loop knows: exactly one response with
  the call's id is handed to the session, and its payload is the empty object \<open>{}\<close> that
  \<open>result\<close> starts with, not an explicit "unsupported" result.
\<close>

theorem unknown_tool_empty_payload_counterexample:
  "onmessage 0 0
     \<lparr>audioData = None,
      toolCall = Some \<lparr>functionCalls =
        Some [\<lparr>fc_id = ''call-1'', fc_name = ''getWeather'', fc_args = Some Map.empty\<rparr>]\<rparr>\<rparr>
     init_session
   = (None, init_session\<lparr>sent :=
        [ToolResponse \<lparr>fr_id = ''call-1'', fr_name = ''getWeather'', fr_result = EmptyObject\<rparr>]\<rparr>)"
  by (simp add: onmessage_def tool_result_of_def init_session_def)

text \<open>
  Claim C1, amended: for every inbound message with function calls, if its audio string,
  when present and not empty, is base64 of a non-empty even number of bytes, and each of
  its \<open>checkSuspiciousNumber\<close> calls carries an \<open>args\<close> object whose \<open>phoneNumber\<close>, when
  present, is a string, then the handler completes and hands to the session exactly one
  response per function call, in order, each with the id and the name of its call; for a
  name outside the known set the payload of the response is the empty object.
\<close>

theorem tool_calls_answered_once:
  assumes "toolCall msg = Some \<lparr>functionCalls = Some fcs\<rparr>"
    and "\<forall>fc \<in> set fcs. fc_name fc = ''checkSuspiciousNumber'' \<longrightarrow>
           (\<exists>args. fc_args fc = Some args
              \<and> (\<forall>v. args ''phoneNumber'' = Some v \<longrightarrow> (\<exists>p. v = JString p)))"
    and "\<forall>data. audioData msg = Some data \<and> data \<noteq> [] \<longrightarrow>
           (\<exists>audioBytes. base64ToUint8Array data = Inr audioBytes
              \<and> audioBytes \<noteq> [] \<and> even (length audioBytes))"
  shows "\<exists>rs. fst (onmessage now rnd msg s) = None
           \<and> sent (snd (onmessage now rnd msg s)) = sent s @ map ToolResponse rs
           \<and> map fr_id rs = map fc_id fcs
           \<and> map fr_name rs = map fc_name fcs
           \<and> (\<forall>i < length fcs.
                 fc_name (fcs ! i) \<noteq> ''searchNearbyEvents''
                 \<and> fc_name (fcs ! i) \<noteq> ''checkSuspiciousNumber''
                 \<longrightarrow> fr_result (rs ! i) = EmptyObject)"
proof -
  obtain s1 where s1: "(case audioData msg of
              None \<Rightarrow> Inr s
            | Some data \<Rightarrow>
                if data = [] then Inr s
                else (case base64ToUint8Array data of
                        Inl e \<Rightarrow> Inl e
                      | Inr audioBytes \<Rightarrow> handleAudio now rnd audioBytes s)) = Inr s1"
    and sent1: "sent s1 = sent s"
  proof (cases "audioData msg")
    case None
    then show ?thesis using that by simp
  next
    case (Some data)
    show ?thesis
    proof (cases "data = []")
      case True
      then show ?thesis using that Some by simp
    next
      case False
      with assms(3) Some obtain audioBytes where
        b: "base64ToUint8Array data = Inr audioBytes" "audioBytes \<noteq> []" "even (length audioBytes)"
        by blast
      from handleAudio_even [OF b(2,3)] obtain s1 where
        h: "handleAudio now rnd audioBytes s = Inr s1" ..
      then show ?thesis using that Some False b(1) handleAudio_sent [OF h] by simp
    qed
  qed
  from toolCall_loop_answers [OF assms(2), of s1] obtain rs where
    rs: "toolCall_loop fcs s1 = (None, s1\<lparr>sent := sent s1 @ map ToolResponse rs\<rparr>)"
        "map fr_id rs = map fc_id fcs" "map fr_name rs = map fc_name fcs"
        "\<forall>i < length fcs.
                 fc_name (fcs ! i) \<noteq> ''searchNearbyEvents''
                 \<and> fc_name (fcs ! i) \<noteq> ''checkSuspiciousNumber''
                 \<longrightarrow> fr_result (rs ! i) = EmptyObject"
    by blast
  have "onmessage now rnd msg s = (None, s1\<lparr>sent := sent s1 @ map ToolResponse rs\<rparr>)"
    unfolding onmessage_def s1 using assms(1) rs(1) by simp
  then show ?thesis using rs(2,3,4) sent1 by auto
qed

theorem tool_calls_answered_once_witness:
  "\<exists>rs. fst (onmessage 0 0 sample_message init_session) = None
      \<and> sent (snd (onmessage 0 0 sample_message init_session)) = map ToolResponse rs
      \<and> map fr_id rs = [''call-1'', ''call-2'']
      \<and> map fr_name rs = [''getWeather'', ''checkSuspiciousNumber'']
      \<and> fr_result (rs ! 0) = EmptyObject"
proof -
  have a: "toolCall sample_message = Some \<lparr>functionCalls = Some sample_calls\<rparr>"
    by (simp add: sample_message_def)
  have b: "\<forall>fc \<in> set sample_calls. fc_name fc = ''checkSuspiciousNumber'' \<longrightarrow>
           (\<exists>args. fc_args fc = Some args
              \<and> (\<forall>v. args ''phoneNumber'' = Some v \<longrightarrow> (\<exists>p. v = JString p)))"
    by (simp add: sample_calls_def)
  have "base64ToUint8Array ''AEA='' = Inr [0, 64]" by (simp add: base64_defs)
  then have c: "\<forall>data. audioData sample_message = Some data \<and> data \<noteq> [] \<longrightarrow>
           (\<exists>audioBytes. base64ToUint8Array data = Inr audioBytes
              \<and> audioBytes \<noteq> [] \<and> even (length audioBytes))"
    by (simp add: sample_message_def)
  from tool_calls_answered_once [OF a b c, of 0 0 init_session] obtain rs where
    rs: "fst (onmessage 0 0 sample_message init_session) = None"
        "sent (snd (onmessage 0 0 sample_message init_session))
           = sent init_session @ map ToolResponse rs"
        "map fr_id rs = map fc_id sample_calls" "map fr_name rs = map fc_name sample_calls"
        "\<forall>i < length sample_calls.
                 fc_name (sample_calls ! i) \<noteq> ''searchNearbyEvents''
                 \<and> fc_name (sample_calls ! i) \<noteq> ''checkSuspiciousNumber''
                 \<longrightarrow> fr_result (rs ! i) = EmptyObject"
    by blast
  have "fr_result (rs ! 0) = EmptyObject"
    using rs(5) [rule_format, of 0] by (simp add: sample_calls_def)
  with rs(1-4) show ?thesis
    by (intro exI [of _ rs]) (simp add: init_session_def sample_calls_def)
qed

text \<open>
  Outside these hypotheses the handler ends with an exception that nothing catches, and
  the calls of the message are not answered: at an audio string of one space, which is not
  empty and decodes to zero bytes, and at a \<open>phoneNumber\<close> that is a number.
\<close>

lemma whitespace_audio_raises:
  "onmessage 0 0
     \<lparr>audioData = Some '' '', toolCall = Some \<lparr>functionCalls = Some sample_calls\<rparr>\<rparr>
     init_session
   = (Some NotSupportedError, init_session)"
  by (simp add: onmessage_def handleAudio_def decodeAudioData_def base64_defs)

lemma numeric_phoneNumber_raises:
  "onmessage 0 0
     \<lparr>audioData = None,
      toolCall = Some \<lparr>functionCalls =
        Some [\<lparr>fc_id = ''call-1'', fc_name = ''checkSuspiciousNumber'',
               fc_args = Some [''phoneNumber'' \<mapsto> JNumber 99998888]\<rparr>]\<rparr>\<rparr>
     init_session
   = (Some TypeError, init_session)"
  by (simp add: onmessage_def tool_result_of_def MOCK_SCAM_NUMBERS_def)

section \<open>Properties of the capture callback\<close>

lemmas muted_defs =
  started_muted_def muted_and_stopped_def stopSession_def toggleMic_def onopen_def
  App_startSession_def ok_session_env_def init_session_def Let_def




text \<open>
  The handler tests the \<open>isMicOn\<close> of its closure, not the current flag. In a session
  started with the flag on, a callback after the user has muted still sets the volume and
  hands the frame to the session, contrary to the handler's own comment ("If mic is off,
  do not send data"). The amended claim says nothing about this case.
\<close>

lemma muting_running_session_keeps_transmitting:
  "\<not> isMicOn (toggleMic (onopen (App_startSession ok_session_env init_session)))
   \<and> capture_callback [1, 1] (toggleMic (onopen (App_startSession ok_session_env init_session)))
       = (toggleMic (onopen (App_startSession ok_session_env init_session)))
           \<lparr>volumeLevel := 100,
            sent := [RealtimeInput 48000 (buffer_of (pcm16 [1, 1]))]\<rparr>"
  by (simp add: muted_defs capture_callback_def onaudioprocess_def rms_def)


section \<open>Properties of the call operations\<close>

lemmas sample_defs =
  caller_in_call_def callee_ringing_def init_app_def ok_env_def ok_session_env_def
  user_a_def user_b_def initiateCall_def incoming_listener_def new_RTCPeerConnection_def
  setLocalDescription_def fromName_of_def idle_call_def Let_def

lemma caller_in_call_eq:
  "caller_in_call =
     \<lparr>connected = False, isMicOn = True, volumeLevel = 0, errorMsg = None,
      audioContextRef = None, processorRef = None, sessionRef = None,
      nextStartTimeRef = 0, started = [], sent = [],
      currentUser = Some user_a, myUserId = ''KP-AAAA0001'',
      callState = \<lparr>isInCall = True, callType = Some Outgoing,
                    remoteUserId = Some ''KP-BBBB0002'', remoteUserName = Some ''Badrul''\<rparr>,
      peerConnectionRef = Some 0, localStreamRef = Some 0,
      pcs = [\<lparr>signalingState = HaveLocalOffer,
              localDescription = Some \<lparr>desc_type = Offer, desc_sdp = ''v=0 a''\<rparr>,
              remoteDescription = None, remoteCandidates = []\<rparr>],
      streams = [[Live]],
      calls = [''KP-BBBB0002'' \<mapsto>
                 OfferRecord ''KP-AAAA0001'' ''Aini'' \<lparr>desc_type = Offer, desc_sdp = ''v=0 a''\<rparr>],
      candidates = Map.empty,
      listeners = [AnswerListener 0, CandidateListener 0]\<rparr>"
  by (simp add: sample_defs)

lemma callee_ringing_state:
  "callState callee_ringing =
     \<lparr>isInCall = False, callType = Some Incoming, remoteUserId = Some ''KP-AAAA0001'',
      remoteUserName = Some ''Aini''\<rparr>
   \<and> calls callee_ringing ''KP-BBBB0002''
       = Some (OfferRecord ''KP-AAAA0001'' ''Aini'' \<lparr>desc_type = Offer, desc_sdp = ''v=0 a''\<rparr>)"
  by (simp add: sample_defs)




text \<open>
  The same at the ringing callee of the sample call: its own record, the caller's offer,
  is removed and the store holds no record afterwards.
\<close>

lemma declineCall_callee_ringing:
  "calls (declineCall callee_ringing) = Map.empty
   \<and> candidates (declineCall callee_ringing) = Map.empty
   \<and> callState (declineCall callee_ringing) = idle_call"
  by (simp add: sample_defs declineCall_def)

text \<open>
  Claim C8: a callback of the answer listener, the offer listener or the candidate
  listener whose peer connection has the signaling state \<open>closed\<close> leaves the whole state
  as it is: no description or candidate is applied and nothing is written to the relay
  store.
\<close>

theorem closed_pc_callbacks_ignored:
  assumes "signalingState (pcs s ! pc) = Closed"
  shows "answer_listener pc data s = s
       \<and> offer_listener pc remote answerSdp data s = s
       \<and> candidate_listener pc cdata s = s"
  using assms
  by (simp add: answer_listener_def offer_listener_def candidate_listener_def
      split: option.splits call_record.splits)

theorem closed_pc_callbacks_ignored_witness:
  "answer_listener 0
     (Some (AnswerRecord ''KP-BBBB0002'' \<lparr>desc_type = Answer, desc_sdp = ''v=0 b''\<rparr>))
     (endCall caller_in_call) = endCall caller_in_call
   \<and> offer_listener 0 ''KP-BBBB0002'' ''v=0 c''
       (Some (OfferRecord ''KP-BBBB0002'' ''badrul'' \<lparr>desc_type = Offer, desc_sdp = ''v=0 b''\<rparr>))
       (endCall caller_in_call) = endCall caller_in_call
   \<and> candidate_listener 0 (Some \<lparr>cand_from = ''KP-BBBB0002'', candidate = ''candidate:1''\<rparr>)
       (endCall caller_in_call) = endCall caller_in_call"
proof -
  have "signalingState (pcs (endCall caller_in_call) ! 0) = Closed"
    by (simp add: caller_in_call_eq endCall_def close_pc_def)
  from closed_pc_callbacks_ignored [OF this] show ?thesis by blast
qed

text \<open>On the live peer connection of the sample call the same answer is applied.\<close>

lemma answer_applied_when_live:
  "pcs (answer_listener 0
          (Some (AnswerRecord ''KP-BBBB0002'' \<lparr>desc_type = Answer, desc_sdp = ''v=0 b''\<rparr>))
          caller_in_call)
     = [\<lparr>signalingState = Stable,
         localDescription = Some \<lparr>desc_type = Offer, desc_sdp = ''v=0 a''\<rparr>,
         remoteDescription = Some \<lparr>desc_type = Answer, desc_sdp = ''v=0 b''\<rparr>,
         remoteCandidates = []\<rparr>]"
  by (simp add: caller_in_call_eq answer_listener_def setRemoteDescription_def)

text \<open>
  Claim C9, as the spec states it, at the trace that starts the streaming session and then
  dials from the initial state: both calls go through, and in the state reached the
  session is connected and a call is in progress.
\<close>

theorem session_and_call_both_active_counterexample:
  "connected (initiateCall ''KP-BBBB0002'' ''Badrul'' ok_env
       (startSession ok_session_env (init_app user_a ''KP-AAAA0001'' Map.empty Map.empty)))
   \<and> isInCall (callState (initiateCall ''KP-BBBB0002'' ''Badrul'' ok_env
       (startSession ok_session_env (init_app user_a ''KP-AAAA0001'' Map.empty Map.empty))))"
  by (simp add: sample_defs startSession_def)

text \<open>
  Claim C9, amended: the streaming session and the calls do not exclude each other.
  Whether \<open>startSession\<close> connects does not depend on the call state, which it leaves as
  it is; whether \<open>initiateCall\<close> and \<open>acceptCall\<close> start a call does not depend on
  \<open>connected\<close>, which they leave as it is.
\<close>

theorem session_and_call_independent:
  "connected (startSession se (s\<lparr>callState := c\<rparr>)) = connected (startSession se s)
   \<and> callState (startSession se s) = callState s
   \<and> callState (initiateCall friendId friendName ce (s\<lparr>connected := b\<rparr>))
       = callState (initiateCall friendId friendName ce s)
   \<and> callState (acceptCall ce (s\<lparr>connected := b\<rparr>)) = callState (acceptCall ce s)
   \<and> connected (initiateCall friendId friendName ce s) = connected s
   \<and> connected (acceptCall ce s) = connected s"
  by (simp add: startSession_def initiateCall_def acceptCall_def Let_def split: option.splits)

text \<open>
  Claim C10: \<open>initiateCall\<close> while \<open>callState.isInCall\<close> is true returns the state as it
  is: no stream, no peer connection, no listener, no record in the relay store, and the
  same call state.
\<close>

theorem initiateCall_in_call_noop:
  "isInCall (callState s) \<Longrightarrow> initiateCall friendId friendName e s = s"
  by (simp add: initiateCall_def split: option.splits)

theorem initiateCall_in_call_noop_witness:
  "initiateCall ''KP-CCCC0003'' ''Chandra'' ok_env caller_in_call = caller_in_call"
proof -
  have "isInCall (callState caller_in_call)" by (simp add: caller_in_call_eq)
  from initiateCall_in_call_noop [OF this] show ?thesis .
qed

end
